theory Spec2Isabelle
  imports Complex_Main
begin

section \<open>Realtime monitoring page: the cyclic sampler\<close>

text \<open>
  The page \<^verbatim>\<open>src/app/realtime/page.tsx\<close> keeps three React state cells:
  \<^verbatim>\<open>last7Data\<close> (the buffer), \<^verbatim>\<open>currentIndex\<close> (the focus index) and
  \<^verbatim>\<open>isLive\<close> (the connected flag). JavaScript numbers are modelled as reals; the
  index only ever holds \<open>0\<close> or the result of a remainder by a positive length, so it
  is a natural number. The field \<^verbatim>\<open>id\<close> of a record is \<open>id_no\<close> here.
\<close>

record RawPowerData =
  id_no :: nat
  tegangan :: real
  arus :: real
  daya_watt :: real
  energi_kwh :: real
  frekuensi :: real
  pf :: real
  created_at :: string

text \<open>
  The envelope of \<^verbatim>\<open>/power/last7\<close>. The field \<^verbatim>\<open>data\<close> is \<open>None\<close> when it is
  missing or \<^verbatim>\<open>null\<close> (falsy in the test \<^verbatim>\<open>json.data && ...\<close>).
\<close>

record ApiResponse =
  success :: bool
  data :: "RawPowerData list option"
  count :: nat

text \<open>
  What one call of \<^verbatim>\<open>fetch\<close> followed by \<^verbatim>\<open>res.json()\<close> can deliver: the
  promise of \<^verbatim>\<open>fetch\<close> rejects (network error), or a response arrives with a status
  code and a body. \<^verbatim>\<open>res.ok\<close> is true exactly for the status codes 200 to 299.
\<close>

datatype 'b fetch_result = Rejected | Responded nat 'b

definition ok :: "nat \<Rightarrow> bool" where
  "ok code = (200 \<le> code \<and> code \<le> 299)"

record realtime_state =
  last7Data :: "RawPowerData list"
  currentIndex :: nat
  isLive :: bool

definition initial_realtime :: realtime_state where
  "initial_realtime = \<lparr>last7Data = [], currentIndex = 0, isLive = True\<rparr>"

text \<open>
  \<^verbatim>\<open>fetch7Data\<close>: the body of the response is \<open>None\<close> when \<^verbatim>\<open>res.json()\<close> rejects
  or yields \<^verbatim>\<open>null\<close> (reading \<^verbatim>\<open>json.success\<close> then throws); every throw inside the
  \<^verbatim>\<open>try\<close> block lands in the \<^verbatim>\<open>catch\<close>, which only calls \<^verbatim>\<open>setIsLive(false)\<close>.
\<close>

definition fetch7Data ::
  "realtime_state \<Rightarrow> ApiResponse option fetch_result \<Rightarrow> realtime_state" where
  "fetch7Data s r =
     (case r of
        Rejected \<Rightarrow> s\<lparr>isLive := False\<rparr>
      | Responded code body \<Rightarrow>
          if \<not> ok code then s\<lparr>isLive := False\<rparr>
          else (case body of
                  None \<Rightarrow> s\<lparr>isLive := False\<rparr>
                | Some json \<Rightarrow>
                    (case data json of
                       None \<Rightarrow> s\<lparr>isLive := False\<rparr>
                     | Some d \<Rightarrow>
                         if success json \<and> length d > 0
                         then s\<lparr>last7Data := d, isLive := True\<rparr>
                         else s\<lparr>isLive := False\<rparr>)))"

text \<open>
  The render reads \<^verbatim>\<open>last7Data[currentIndex]\<close> (l.114); in JavaScript an index past
  the end yields \<^verbatim>\<open>undefined\<close>, here \<open>None\<close>.
\<close>

definition currentData :: "realtime_state \<Rightarrow> RawPowerData option" where
  "currentData s =
     (if currentIndex s < length (last7Data s) then Some (last7Data s ! currentIndex s)
      else None)"

text \<open>
  One render of the page. With an empty buffer it returns the loading screen before it
  reads \<^verbatim>\<open>currentData\<close> (l.97). Otherwise it evaluates \<^verbatim>\<open>currentData.created_at\<close>
  (l.180) with no optional chaining, which throws a \<^verbatim>\<open>TypeError\<close> when
  \<^verbatim>\<open>currentData\<close> is \<^verbatim>\<open>undefined\<close>; every other read of \<^verbatim>\<open>currentData\<close> is
  written \<^verbatim>\<open>currentData?.\<close> and cannot throw. A render that throws unmounts the
  page, and the clean-up functions of both effects clear their intervals.
\<close>

datatype render_result = Loading | Shown RawPowerData | Throws

definition render :: "realtime_state \<Rightarrow> render_result" where
  "render s =
     (if length (last7Data s) = 0 then Loading
      else (case currentData s of None \<Rightarrow> Throws | Some d \<Rightarrow> Shown d))"

text \<open>
  The callback of the 3-second interval (l.87-95), named \<open>advanceFocus\<close> after the
  specification. The effect installs the interval only when the buffer is non-empty,
  and it is re-run whenever \<^verbatim>\<open>last7Data\<close> changes, so the length the callback divides
  by is the length of the current buffer. Effects run after a render that succeeded:
  from a state whose render throws the page is gone, no interval exists and the
  callback never runs, so the state stays as it is.
\<close>

definition advanceFocus :: "realtime_state \<Rightarrow> realtime_state" where
  "advanceFocus s =
     (case render s of
        Loading \<Rightarrow> s
      | Throws \<Rightarrow> s
      | Shown d \<Rightarrow> s\<lparr>currentIndex := (currentIndex s + 1) mod length (last7Data s)\<rparr>)"

text \<open>Sequences of timer events: a refresh with the result of its fetch, or an advance.\<close>

datatype sampler_op = Refresh "ApiResponse option fetch_result" | Advance

fun apply_op :: "realtime_state \<Rightarrow> sampler_op \<Rightarrow> realtime_state" where
  "apply_op s (Refresh r) = fetch7Data s r"
| "apply_op s Advance = advanceFocus s"

fun run_ops :: "realtime_state \<Rightarrow> sampler_op list \<Rightarrow> realtime_state" where
  "run_ops s [] = s"
| "run_ops s (x # xs) = run_ops (apply_op s x) xs"

text \<open>A reading of which only the power matters, for scenarios.\<close>

definition reading :: "real \<Rightarrow> RawPowerData" where
  "reading p = \<lparr>id_no = 0, tegangan = 220, arus = 1, daya_watt = p, energi_kwh = 0,
                 frekuensi = 50, pf = 1, created_at = ''2025-01-01T00:00:00Z''\<rparr>"

definition two_readings :: realtime_state where
  "two_readings = \<lparr>last7Data = [reading 100, reading 200], currentIndex = 1, isLive = True\<rparr>"

section \<open>Energy-usage history page: derived metrics\<close>

text \<open>
  \<^verbatim>\<open>ENERGY_THRESHOLDS\<close>, \<^verbatim>\<open>getEnergyStatus\<close>, \<^verbatim>\<open>ELECTRICITY_RATES\<close> and
  \<^verbatim>\<open>calculateCost\<close> of the energy-usage history page. The argument \<^verbatim>\<open>usage\<close> and
  the thresholds are JavaScript numbers, compared with \<^verbatim>\<open><\<close>; they are reals here
  (no \<^verbatim>\<open>NaN\<close>). \<open>calculateCost\<close> is the formula of the helper in exact arithmetic;
  \<open>calculateCost_js\<close> further down rounds each operation as the page does.
\<close>

datatype period = hourly | daily | monthly

record thresholds =
  veryLow :: real
  low :: real
  normal :: real
  high :: real
  veryHigh :: real

fun ENERGY_THRESHOLDS :: "period \<Rightarrow> thresholds" where
  "ENERGY_THRESHOLDS daily =
     \<lparr>veryLow = 3, low = 8, normal = 15, high = 25, veryHigh = 25\<rparr>"
| "ENERGY_THRESHOLDS hourly =
     \<lparr>veryLow = 0.1, low = 0.3, normal = 0.8, high = 1.5, veryHigh = 1.5\<rparr>"
| "ENERGY_THRESHOLDS monthly =
     \<lparr>veryLow = 90, low = 240, normal = 450, high = 750, veryHigh = 750\<rparr>"

record energy_status =
  status :: string
  color :: string
  description :: string

definition getEnergyStatus :: "real \<Rightarrow> period \<Rightarrow> energy_status" where
  "getEnergyStatus usage p =
     (let t = ENERGY_THRESHOLDS p in
      if usage < veryLow t then
        \<lparr>status = ''Very Low'', color = ''bg-green-100 text-green-800'',
         description = ''Konsumsi sangat hemat''\<rparr>
      else if usage < low t then
        \<lparr>status = ''Low'', color = ''bg-green-100 text-green-700'',
         description = ''Konsumsi rendah''\<rparr>
      else if usage < normal t then
        \<lparr>status = ''Normal'', color = ''bg-blue-100 text-blue-700'',
         description = ''Konsumsi normal''\<rparr>
      else if usage < high t then
        \<lparr>status = ''High'', color = ''bg-yellow-100 text-yellow-700'',
         description = ''Konsumsi tinggi''\<rparr>
      else
        \<lparr>status = ''Very High'', color = ''bg-red-100 text-red-700'',
         description = ''Konsumsi sangat tinggi''\<rparr>)"

text \<open>
  The order of the five tiers, Very Low < Low < Normal < High < Very High, as a rank;
  a string that is none of the five has no rank.
\<close>

definition tier :: "string \<Rightarrow> nat option" where
  "tier st =
     (if st = ''Very Low'' then Some 0
      else if st = ''Low'' then Some 1
      else if st = ''Normal'' then Some 2
      else if st = ''High'' then Some 3
      else if st = ''Very High'' then Some 4
      else None)"

record electricity_rates =
  R1_900VA :: real
  R1_1300VA :: real
  R1_2200VA :: real
  R2_3500VA :: real

definition ELECTRICITY_RATES :: electricity_rates where
  "ELECTRICITY_RATES =
     \<lparr>R1_900VA = 1444.70, R1_1300VA = 1444.70, R1_2200VA = 1444.70, R2_3500VA = 1699.53\<rparr>"

record cost =
  idr :: real
  usd :: real

definition calculateCost :: "real \<Rightarrow> cost" where
  "calculateCost kWh =
     (let costIDR = kWh * R1_2200VA ELECTRICITY_RATES;
          costUSD = costIDR / 15500
      in \<lparr>idr = costIDR, usd = costUSD\<rparr>)"

section \<open>Reports page: its own copy of the cost helper\<close>

text \<open>
  \<^verbatim>\<open>src/app/alerts/page.tsx\<close> declares a second \<^verbatim>\<open>ELECTRICITY_RATES\<close> (two rates
  only), the constant \<^verbatim>\<open>USD_TO_IDR\<close> and a second \<^verbatim>\<open>calculateCost\<close>.
\<close>

record report_rates =
  reports_R1_2200VA :: real
  reports_R2_3500VA :: real

definition reports_ELECTRICITY_RATES :: report_rates where
  "reports_ELECTRICITY_RATES = \<lparr>reports_R1_2200VA = 1444.70, reports_R2_3500VA = 1699.53\<rparr>"

definition USD_TO_IDR :: real where
  "USD_TO_IDR = 15500"

definition reports_calculateCost :: "real \<Rightarrow> cost" where
  "reports_calculateCost kWh =
     (let costIDR = kWh * reports_R1_2200VA reports_ELECTRICITY_RATES;
          costUSD = costIDR / USD_TO_IDR
      in \<lparr>idr = costIDR, usd = costUSD\<rparr>)"

section \<open>JavaScript numbers in binary64 arithmetic\<close>

text \<open>
  Where a property depends on how a product is rounded, the cost helper is modelled in
  the arithmetic the page runs in. A JavaScript number is an IEEE 754 binary64 value:
  a finite double (given by the real it denotes), an infinity, or \<^verbatim>\<open>NaN\<close>. The sign
  of zero is dropped: \<^verbatim>\<open>-0 === 0\<close>, and no operation below can tell them apart.
\<close>

datatype jsnum = Finite real | PosInf | NegInf | NaN

text \<open>Rounding to the nearest integer, a tie going to the even one.\<close>

definition round_even :: "real \<Rightarrow> int" where
  "round_even x =
     (let f = \<lfloor>x\<rfloor>; d = x - of_int f
      in if d < 1 / 2 then f
         else if 1 / 2 < d then f + 1
         else if even f then f else f + 1)"

text \<open>
  The smallest positive double is \<^verbatim>\<open>2^-1074\<close> (\<^verbatim>\<open>Number.MIN_VALUE\<close>), and every
  finite double is an integer multiple of it. Counted in that unit, a magnitude \<open>t\<close>
  below \<^verbatim>\<open>2^53\<close> (the subnormal range and the first normal binade) is rounded to an
  integer; each doubling of \<open>t\<close> beyond that doubles the spacing of the doubles, which
  keeps 53 significant bits. \<open>quantum t\<close> is that spacing.
\<close>

function quantum :: "real \<Rightarrow> real" where
  "quantum t = (if t < 2 ^ 53 then 1 else 2 * quantum (t / 2))"
  by pat_completeness auto
termination
proof (relation "measure (\<lambda>t. nat \<lceil>t\<rceil>)")
  show "wf (measure (\<lambda>t::real. nat \<lceil>t\<rceil>))" by simp
next
  fix t :: real
  assume "\<not> t < 2 ^ 53"
  then have t: "2 ^ 53 \<le> t" by simp
  then have "t / 2 + 1 \<le> t" by simp
  then have "\<lceil>t / 2 + 1\<rceil> \<le> \<lceil>t\<rceil>" by (rule ceiling_mono)
  then have "\<lceil>t / 2\<rceil> < \<lceil>t\<rceil>" by simp
  moreover from t have "0 < \<lceil>t\<rceil>" by (simp add: less_ceiling_iff)
  ultimately show "(t / 2, t) \<in> measure (\<lambda>t. nat \<lceil>t\<rceil>)" by simp
qed

declare quantum.simps [simp del]

definition units_round :: "real \<Rightarrow> real" where
  "units_round t = of_int (round_even (t / quantum t)) * quantum t"

definition MIN_VALUE :: real where
  "MIN_VALUE = 1 / 2 ^ 1074"

definition MIN_NORMAL :: real where
  "MIN_NORMAL = 2 ^ 52 * MIN_VALUE"

text \<open>
  \<open>binary64 y\<close> is the double nearest to the real \<open>y\<close> (round to nearest, ties to
  even): the result of an arithmetic operation whose exact value is \<open>y\<close>, and the value
  of a numeric literal that reads \<open>y\<close>. A rounded magnitude of \<^verbatim>\<open>2^1024\<close> or more
  (\<^verbatim>\<open>2^2098\<close> units) overflows to an infinity. \<open>MIN_NORMAL\<close> is \<^verbatim>\<open>2^-1022\<close>, the
  smallest normal double.
\<close>

definition binary64_pos :: "real \<Rightarrow> jsnum" where
  "binary64_pos y =
     (let v = units_round (y / MIN_VALUE)
      in if 2 ^ 2098 \<le> v then PosInf else Finite (v * MIN_VALUE))"

fun js_neg :: "jsnum \<Rightarrow> jsnum" where
  "js_neg (Finite x) = Finite (- x)"
| "js_neg PosInf = NegInf"
| "js_neg NegInf = PosInf"
| "js_neg NaN = NaN"

definition binary64 :: "real \<Rightarrow> jsnum" where
  "binary64 y = (if y < 0 then js_neg (binary64_pos (- y)) else binary64_pos y)"

text \<open>A real is a double when rounding leaves it as it is.\<close>

definition is_double :: "real \<Rightarrow> bool" where
  "is_double x = (binary64 x = Finite x)"

text \<open>The operator \<^verbatim>\<open>*\<close> on numbers.\<close>

fun js_mul :: "jsnum \<Rightarrow> jsnum \<Rightarrow> jsnum" where
  "js_mul (Finite a) (Finite b) = binary64 (a * b)"
| "js_mul (Finite a) PosInf = (if a = 0 then NaN else if 0 < a then PosInf else NegInf)"
| "js_mul (Finite a) NegInf = (if a = 0 then NaN else if 0 < a then NegInf else PosInf)"
| "js_mul PosInf (Finite b) = (if b = 0 then NaN else if 0 < b then PosInf else NegInf)"
| "js_mul NegInf (Finite b) = (if b = 0 then NaN else if 0 < b then NegInf else PosInf)"
| "js_mul PosInf PosInf = PosInf"
| "js_mul PosInf NegInf = NegInf"
| "js_mul NegInf PosInf = NegInf"
| "js_mul NegInf NegInf = PosInf"
| "js_mul NaN y = NaN"
| "js_mul x NaN = NaN"

text \<open>
  The operator \<^verbatim>\<open>/\<close> with a divisor that is a finite double other than zero, as in
  \<^verbatim>\<open>costIDR / 15500\<close>, the only division of the helper.
\<close>

fun js_div_by :: "jsnum \<Rightarrow> real \<Rightarrow> jsnum" where
  "js_div_by (Finite a) d = binary64 (a / d)"
| "js_div_by PosInf d = (if 0 < d then PosInf else NegInf)"
| "js_div_by NegInf d = (if 0 < d then NegInf else PosInf)"
| "js_div_by NaN d = NaN"

text \<open>
  \<^verbatim>\<open>calculateCost\<close> of the energy-usage history page, operation by operation in
  binary64: the literal \<^verbatim>\<open>1444.70\<close> denotes the double nearest to it, which is
  \<^verbatim>\<open>6353857794591949 / 2^42\<close> (\<open>R1_2200VA_double\<close>); the literal \<^verbatim>\<open>15500\<close> is a double as it stands.
\<close>

record js_cost =
  idr_js :: jsnum
  usd_js :: jsnum

definition calculateCost_js :: "jsnum \<Rightarrow> js_cost" where
  "calculateCost_js kWh =
     (let costIDR = js_mul kWh (binary64 (R1_2200VA ELECTRICITY_RATES));
          costUSD = js_div_by costIDR 15500
      in \<lparr>idr_js = costIDR, usd_js = costUSD\<rparr>)"

definition R1_2200VA_double :: real where
  "R1_2200VA_double = 6353857794591949 / 2 ^ 42"

section \<open>Power analysis page: fetchers with a fallback sample set\<close>

text \<open>
  \<^verbatim>\<open>src/app/analysis/page.tsx\<close>. A \<^verbatim>\<open>Date\<close> is kept as the string it is built from.
\<close>

record PeakData =
  time :: string
  usage :: real
  timestamp :: "string option"

record LoadPatternDay =
  day :: string
  morning :: real
  afternoon :: real
  evening :: real
  total_energy :: "jsnum option"

definition DUMMY_PEAK_DATA :: "PeakData list" where
  "DUMMY_PEAK_DATA =
     [\<lparr>time = ''18:11'', usage = 365, timestamp = None\<rparr>,
      \<lparr>time = ''18:12'', usage = 395, timestamp = None\<rparr>,
      \<lparr>time = ''18:13'', usage = 455, timestamp = None\<rparr>,
      \<lparr>time = ''18:13'', usage = 375, timestamp = None\<rparr>,
      \<lparr>time = ''18:14'', usage = 505, timestamp = None\<rparr>,
      \<lparr>time = ''18:14'', usage = 525, timestamp = None\<rparr>,
      \<lparr>time = ''18:14'', usage = 610, timestamp = None\<rparr>]"

definition DUMMY_LOAD_PATTERN :: "LoadPatternDay list" where
  "DUMMY_LOAD_PATTERN =
     [\<lparr>day = ''Mon'', morning = 365, afternoon = 455, evening = 610, total_energy = None\<rparr>,
      \<lparr>day = ''Tue'', morning = 395, afternoon = 375, evening = 525, total_energy = None\<rparr>,
      \<lparr>day = ''Wed'', morning = 365, afternoon = 505, evening = 455, total_energy = None\<rparr>,
      \<lparr>day = ''Thu'', morning = 455, afternoon = 610, evening = 395, total_energy = None\<rparr>,
      \<lparr>day = ''Fri'', morning = 375, afternoon = 525, evening = 505, total_energy = None\<rparr>,
      \<lparr>day = ''Sat'', morning = 505, afternoon = 365, evening = 610, total_energy = None\<rparr>,
      \<lparr>day = ''Sun'', morning = 525, afternoon = 395, evening = 455, total_energy = None\<rparr>]"

text \<open>
  The elements of the two JSON arrays have type \<^verbatim>\<open>any\<close>. A numeric field of an element
  is the number \<^verbatim>\<open>Number(field)\<close> denotes, \<open>None\<close> when that is \<^verbatim>\<open>NaN\<close> (the field
  is absent or not numeric); \<^verbatim>\<open>Number(x) || 0\<close> turns \<open>None\<close> and \<open>0\<close> into \<open>0\<close>.
  A field whose raw value is tested for truthiness is \<open>None\<close> when that value is falsy
  (absent, \<^verbatim>\<open>null\<close>, zero, the empty string): \<open>item_timestamp\<close>, and
  \<open>item_total_energy\<close>, which otherwise holds the number \<^verbatim>\<open>Number(item.total_energy)\<close>
  (\<^verbatim>\<open>NaN\<close> for a string that is not numeric, \<open>0\<close> for the string \<^verbatim>\<open>"0"\<close>). In
  \<open>LoadPatternDay\<close> the optional field \<open>total_energy\<close> is \<open>None\<close> when it is
  \<^verbatim>\<open>undefined\<close>.
\<close>

record peak_item =
  item_time :: string
  item_usage :: "real option"
  item_timestamp :: "string option"

record load_item =
  item_day :: string
  item_morning :: "real option"
  item_afternoon :: "real option"
  item_evening :: "real option"
  item_total_energy :: "jsnum option"

definition number_or_zero :: "real option \<Rightarrow> real" where
  "number_or_zero x = (case x of None \<Rightarrow> 0 | Some v \<Rightarrow> v)"

definition format_peak :: "peak_item \<Rightarrow> PeakData" where
  "format_peak item =
     \<lparr>time = item_time item,
      usage = number_or_zero (item_usage item),
      timestamp = item_timestamp item\<rparr>"

definition format_load :: "load_item \<Rightarrow> LoadPatternDay" where
  "format_load item =
     \<lparr>day = item_day item,
      morning = number_or_zero (item_morning item),
      afternoon = number_or_zero (item_afternoon item),
      evening = number_or_zero (item_evening item),
      total_energy = item_total_energy item\<rparr>"

text \<open>
  The body \<^verbatim>\<open>response.json()\<close> delivers: the promise rejects, the value is not an array,
  or it is an array. An element that is \<^verbatim>\<open>null\<close> is \<open>None\<close>: reading a property of it
  throws inside \<^verbatim>\<open>data.map\<close>. \<open>map_items\<close> is that \<^verbatim>\<open>map\<close>, with \<open>None\<close> for the throw.
\<close>

datatype 'a array_body = Unparseable | NotArray | Items "'a option list"

fun map_items :: "('a \<Rightarrow> 'b) \<Rightarrow> 'a option list \<Rightarrow> 'b list option" where
  "map_items f [] = Some []"
| "map_items f (None # xs) = None"
| "map_items f (Some x # xs) =
     (case map_items f xs of None \<Rightarrow> None | Some ys \<Rightarrow> Some (f x # ys))"

record statistics_cards =
  peakHours_time :: string
  peakHours_description :: string
  efficiencyTrend_value :: string
  efficiencyTrend_description :: string
  savingsPotential_value :: string
  savingsPotential_description :: string

record analysis_state =
  powerFactor :: real
  peakUsageData :: "PeakData list"
  loadPatternData :: "LoadPatternDay list"
  statistics :: statistics_cards
  loading :: bool
  error :: "string option"

definition initial_analysis :: analysis_state where
  "initial_analysis =
     \<lparr>powerFactor = 0.95,
      peakUsageData = DUMMY_PEAK_DATA,
      loadPatternData = DUMMY_LOAD_PATTERN,
      statistics =
        \<lparr>peakHours_time = ''8PM - 10PM'',
         peakHours_description = ''Highest consumption period'',
         efficiencyTrend_value = ''+5%'',
         efficiencyTrend_description = ''Improvement this month'',
         savingsPotential_value = ''$35/mo'',
         savingsPotential_description = ''With optimizations''\<rparr>,
      loading = True,
      error = None\<rparr>"

definition fetchPeakUsageData ::
  "analysis_state \<Rightarrow> peak_item array_body fetch_result \<Rightarrow> analysis_state" where
  "fetchPeakUsageData s r =
     (case r of
        Rejected \<Rightarrow> s\<lparr>peakUsageData := DUMMY_PEAK_DATA\<rparr>
      | Responded code body \<Rightarrow>
          if \<not> ok code then s\<lparr>peakUsageData := DUMMY_PEAK_DATA\<rparr>
          else (case body of
                  Unparseable \<Rightarrow> s\<lparr>peakUsageData := DUMMY_PEAK_DATA\<rparr>
                | NotArray \<Rightarrow> s\<lparr>peakUsageData := DUMMY_PEAK_DATA\<rparr>
                | Items xs \<Rightarrow>
                    if length xs = 0 then s\<lparr>peakUsageData := DUMMY_PEAK_DATA\<rparr>
                    else (case map_items format_peak xs of
                            None \<Rightarrow> s\<lparr>peakUsageData := DUMMY_PEAK_DATA\<rparr>
                          | Some formattedData \<Rightarrow> s\<lparr>peakUsageData := formattedData\<rparr>)))"

definition fetchLoadPatternData ::
  "analysis_state \<Rightarrow> load_item array_body fetch_result \<Rightarrow> analysis_state" where
  "fetchLoadPatternData s r =
     (case r of
        Rejected \<Rightarrow> s\<lparr>loadPatternData := DUMMY_LOAD_PATTERN\<rparr>
      | Responded code body \<Rightarrow>
          if \<not> ok code then s\<lparr>loadPatternData := DUMMY_LOAD_PATTERN\<rparr>
          else (case body of
                  Unparseable \<Rightarrow> s\<lparr>loadPatternData := DUMMY_LOAD_PATTERN\<rparr>
                | NotArray \<Rightarrow> s\<lparr>loadPatternData := DUMMY_LOAD_PATTERN\<rparr>
                | Items xs \<Rightarrow>
                    if length xs = 0 then s\<lparr>loadPatternData := DUMMY_LOAD_PATTERN\<rparr>
                    else (case map_items format_load xs of
                            None \<Rightarrow> s\<lparr>loadPatternData := DUMMY_LOAD_PATTERN\<rparr>
                          | Some formattedData \<Rightarrow> s\<lparr>loadPatternData := formattedData\<rparr>)))"

text \<open>
  \<^verbatim>\<open>fetchPowerFactor\<close> and \<^verbatim>\<open>fetchStatistics\<close> catch their own errors as well; each
  either returns without a state update or stores one value in its own cell
  (\<^verbatim>\<open>setPowerFactor\<close>, \<^verbatim>\<open>setStatistics\<close>). Their argument here is that value, if any.
\<close>

definition fetchPowerFactor :: "analysis_state \<Rightarrow> real option \<Rightarrow> analysis_state" where
  "fetchPowerFactor s r = (case r of None \<Rightarrow> s | Some v \<Rightarrow> s\<lparr>powerFactor := v\<rparr>)"

definition fetchStatistics :: "analysis_state \<Rightarrow> statistics_cards option \<Rightarrow> analysis_state" where
  "fetchStatistics s r = (case r of None \<Rightarrow> s | Some v \<Rightarrow> s\<lparr>statistics := v\<rparr>)"

text \<open>
  \<^verbatim>\<open>fetchAllData\<close> awaits the four fetchers under \<^verbatim>\<open>Promise.all\<close>. Each of them writes
  a cell of its own, so the final state does not depend on the order in which they
  finish; none of them rejects, so the \<^verbatim>\<open>catch\<close> branch (which calls
  \<^verbatim>\<open>setError(null)\<close> and \<^verbatim>\<open>setLoading(false)\<close>) is never entered.
\<close>

definition fetchAllData ::
  "analysis_state \<Rightarrow> peak_item array_body fetch_result \<Rightarrow> load_item array_body fetch_result
     \<Rightarrow> real option \<Rightarrow> statistics_cards option \<Rightarrow> analysis_state" where
  "fetchAllData s rpeak rload rpf rstats =
     (let s0 = s\<lparr>loading := True, error := None\<rparr>;
          s1 = fetchPeakUsageData s0 rpeak;
          s2 = fetchLoadPatternData s1 rload;
          s3 = fetchPowerFactor s2 rpf;
          s4 = fetchStatistics s3 rstats
      in s4\<lparr>loading := False\<rparr>)"

section \<open>Predicates the properties are stated with\<close>

text \<open>
  A failing fetch of the realtime page, in the words of the specification: a network
  error or exception, a status outside 200..299, or an envelope with
  \<^verbatim>\<open>success = false\<close> or missing or empty \<^verbatim>\<open>data\<close>.
\<close>

definition fetch_failed :: "ApiResponse option fetch_result \<Rightarrow> bool" where
  "fetch_failed r =
     (case r of
        Rejected \<Rightarrow> True
      | Responded code body \<Rightarrow>
          \<not> ok code \<or>
          (case body of
             None \<Rightarrow> True
           | Some json \<Rightarrow> \<not> success json \<or> data json = None \<or> data json = Some []))"

text \<open>
  A failing fetch of an array endpoint of the analysis page: a thrown error (the fetch
  rejects, the body does not parse, an element is \<^verbatim>\<open>null\<close>), a status outside
  200..299, a body that is not an array, or an empty array.
\<close>

definition array_fetch_failed :: "'a array_body fetch_result \<Rightarrow> bool" where
  "array_fetch_failed r =
     (case r of
        Rejected \<Rightarrow> True
      | Responded code body \<Rightarrow>
          \<not> ok code \<or>
          (case body of
             Unparseable \<Rightarrow> True
           | NotArray \<Rightarrow> True
           | Items xs \<Rightarrow> xs = [] \<or> list_ex (\<lambda>x. x = None) xs))"

text \<open>A response with status 200 whose envelope reports success and carries \<open>d\<close>.\<close>

definition envelope :: "RawPowerData list \<Rightarrow> ApiResponse option fetch_result" where
  "envelope d = Responded 200 (Some \<lparr>success = True, data = Some d, count = length d\<rparr>)"

definition one_peak_item :: peak_item where
  "one_peak_item = \<lparr>item_time = ''09:00'', item_usage = Some 120, item_timestamp = None\<rparr>"

text \<open>
  A run from the page's first render: two records arrive, the focus advances, one
  record arrives.
\<close>

definition shrinking_run :: "sampler_op list" where
  "shrinking_run =
     [Refresh (envelope [reading 100, reading 200]), Advance, Refresh (envelope [reading 300])]"

section \<open>The sampler: what a refresh and an advance do\<close>

lemma fetch7Data_index: "currentIndex (fetch7Data s r) = currentIndex s"
  by (simp add: fetch7Data_def split: fetch_result.splits option.splits)

lemma fetch7Data_nonempty: "last7Data s \<noteq> [] \<Longrightarrow> last7Data (fetch7Data s r) \<noteq> []"
  by (auto simp: fetch7Data_def split: fetch_result.splits option.splits)

text \<open>The fetches that are not failures are exactly those that install their data.\<close>

lemma fetch7Data_success:
  "\<not> fetch_failed r \<Longrightarrow>
     \<exists>d. d \<noteq> [] \<and> fetch7Data s r = s\<lparr>last7Data := d, isLive := True\<rparr>"
  by (auto simp: fetch_failed_def fetch7Data_def split: fetch_result.splits option.splits)

lemma render_in_range:
  "last7Data s \<noteq> [] \<Longrightarrow> currentIndex s < length (last7Data s)
   \<Longrightarrow> render s = Shown (last7Data s ! currentIndex s)"
  by (simp add: render_def currentData_def)

lemma render_out_of_range:
  "last7Data s \<noteq> [] \<Longrightarrow> \<not> currentIndex s < length (last7Data s) \<Longrightarrow> render s = Throws"
  by (simp add: render_def currentData_def)

lemma advanceFocus_buffer: "last7Data (advanceFocus s) = last7Data s"
  by (simp add: advanceFocus_def split: render_result.splits)

lemma advanceFocus_step:
  "last7Data s \<noteq> [] \<Longrightarrow> currentIndex s < length (last7Data s)
   \<Longrightarrow> advanceFocus s = s\<lparr>currentIndex := (currentIndex s + 1) mod length (last7Data s)\<rparr>"
  by (simp add: advanceFocus_def render_in_range)

lemma advanceFocus_stuck:
  "last7Data s \<noteq> [] \<Longrightarrow> \<not> currentIndex s < length (last7Data s) \<Longrightarrow> advanceFocus s = s"
  by (simp add: advanceFocus_def render_out_of_range)

lemma apply_op_nonempty: "last7Data s \<noteq> [] \<Longrightarrow> last7Data (apply_op s x) \<noteq> []"
  by (cases x) (simp_all add: fetch7Data_nonempty advanceFocus_buffer)

lemma run_ops_nonempty: "last7Data s \<noteq> [] \<Longrightarrow> last7Data (run_ops s xs) \<noteq> []"
  by (induction xs arbitrary: s) (simp_all add: apply_op_nonempty)

text \<open>
  An advance keeps an index that is in range in range, and a refresh keeps it in range
  when the buffer it leaves is longer than the index. Nothing else is guaranteed:
  \<open>fetch7Data\<close> never writes \<open>currentIndex\<close>.
\<close>

lemma advanceFocus_in_range:
  "last7Data s \<noteq> [] \<Longrightarrow> currentIndex s < length (last7Data s)
   \<Longrightarrow> currentIndex (advanceFocus s) < length (last7Data (advanceFocus s))"
  by (simp add: advanceFocus_step)

section \<open>The focus index and the length of the buffer\<close>

text \<open>
  Claim C1. The invariant that the focus index is in \<open>[0, len(buffer))\<close> at every
  reachable point, clamped at once by a refresh that shortens the buffer, is not kept
  by the page. From the first render: a refresh delivers two records (index 0, record
  100 shown), the focus advances to index 1 (record 200 shown), and a refresh delivers
  one record. \<open>fetch7Data\<close> does not write \<open>currentIndex\<close>, so the buffer has length 1
  and the focus index is still 1: the read \<open>last7Data[currentIndex]\<close> is out of range
  and the render throws. No advance runs after that, so the index is never brought
  back.
\<close>

theorem sampler_shrink_out_of_range:
  "last7Data (run_ops initial_realtime (take 2 shrinking_run)) = [reading 100, reading 200]
   \<and> currentIndex (run_ops initial_realtime (take 2 shrinking_run)) = 1
   \<and> render (run_ops initial_realtime (take 2 shrinking_run)) = Shown (reading 200)
   \<and> last7Data (run_ops initial_realtime shrinking_run) = [reading 300]
   \<and> currentIndex (run_ops initial_realtime shrinking_run) = 1
   \<and> \<not> currentIndex (run_ops initial_realtime shrinking_run)
         < length (last7Data (run_ops initial_realtime shrinking_run))
   \<and> currentData (run_ops initial_realtime shrinking_run) = None
   \<and> render (run_ops initial_realtime shrinking_run) = Throws
   \<and> currentIndex (run_ops initial_realtime (shrinking_run @ [Advance])) = 1"
  by (simp add: initial_realtime_def shrinking_run_def envelope_def fetch7Data_def ok_def
      advanceFocus_def render_def currentData_def)

section \<open>A failing refresh\<close>

text \<open>
  Claim C2. Whenever the fetch fails (the request rejects, the status is not 2xx, the
  body does not parse, or the envelope has \<open>success = false\<close> or missing or empty
  \<open>data\<close>), \<open>fetch7Data\<close> changes nothing but \<open>isLive\<close>, which becomes false: the
  buffer and the focus index are what they were.
\<close>

theorem fetch7Data_failure_atomic:
  assumes "fetch_failed r"
  shows "fetch7Data s r = s\<lparr>isLive := False\<rparr>
         \<and> last7Data (fetch7Data s r) = last7Data s
         \<and> currentIndex (fetch7Data s r) = currentIndex s
         \<and> isLive (fetch7Data s r) = False"
proof -
  from assms have "fetch7Data s r = s\<lparr>isLive := False\<rparr>"
    by (auto simp: fetch_failed_def fetch7Data_def split: fetch_result.splits option.splits)
  then show ?thesis by simp
qed

theorem fetch7Data_failure_atomic_witness:
  "fetch_failed (Responded 503 None)
   \<and> fetch7Data two_readings (Responded 503 None)
       = \<lparr>last7Data = [reading 100, reading 200], currentIndex = 1, isLive = False\<rparr>"
  using fetch7Data_failure_atomic [of "Responded 503 None" two_readings]
  by (simp add: fetch_failed_def ok_def two_readings_def)

section \<open>The buffer shrinks\<close>

text \<open>
  From focus index 0 the scenario goes as described: the one-record buffer is
  installed, the render shows its record, and the advance computes \<open>(0 + 1) mod 1 = 0\<close>.
\<close>

lemma shrink_then_advance_from_first:
  assumes "currentIndex s = 0" and "ok code" and "success json" and "data json = Some [c]"
  shows "last7Data (fetch7Data s (Responded code (Some json))) = [c]
         \<and> render (fetch7Data s (Responded code (Some json))) = Shown c
         \<and> currentIndex (advanceFocus (fetch7Data s (Responded code (Some json)))) = 0"
  using assms by (simp add: fetch7Data_def advanceFocus_def render_def currentData_def)

text \<open>
  Claim C3. The buffer holds two records with powers 100 and 200 and a refresh installs
  the single record of power 300. From focus index 0 the next advance yields 0. From
  focus index 1, which is as valid, the state after the refresh is the one-record
  buffer with index 1: the render throws, no advance runs, and the focus index stays
  at 1, out of range, where the scenario requires 0.
\<close>

theorem shrink_at_last_index:
  "last7Data two_readings = [reading 100, reading 200]
   \<and> daya_watt (reading 100) = 100 \<and> daya_watt (reading 200) = 200
   \<and> daya_watt (reading 300) = 300
   \<and> currentIndex two_readings = 1
   \<and> currentIndex two_readings < length (last7Data two_readings)
   \<and> fetch7Data two_readings (envelope [reading 300])
       = \<lparr>last7Data = [reading 300], currentIndex = 1, isLive = True\<rparr>
   \<and> render (fetch7Data two_readings (envelope [reading 300])) = Throws
   \<and> currentIndex (advanceFocus (fetch7Data two_readings (envelope [reading 300]))) = 1
   \<and> currentIndex (advanceFocus (fetch7Data (two_readings\<lparr>currentIndex := 0\<rparr>)
        (envelope [reading 300]))) = 0"
  by (simp add: two_readings_def reading_def envelope_def fetch7Data_def ok_def
      advanceFocus_def render_def currentData_def)

section \<open>Cyclicity of the focus index\<close>

lemma advanceFocus_funpow_buffer: "last7Data ((advanceFocus ^^ k) s) = last7Data s"
  by (induction k) (simp_all add: advanceFocus_buffer)

lemma advanceFocus_funpow_index:
  assumes "last7Data s \<noteq> []" and "currentIndex s < length (last7Data s)"
  shows "currentIndex ((advanceFocus ^^ k) s)
           = (currentIndex s + k) mod length (last7Data s)"
proof (induction k)
  case 0
  from assms show ?case by simp
next
  case (Suc k)
  let ?t = "(advanceFocus ^^ k) s"
  have len: "last7Data ?t = last7Data s"
    by (rule advanceFocus_funpow_buffer)
  from assms Suc have "currentIndex ?t < length (last7Data s)"
    by simp
  with assms len
  have "advanceFocus ?t
          = ?t\<lparr>currentIndex := (currentIndex ?t + 1) mod length (last7Data s)\<rparr>"
    by (simp add: advanceFocus_step)
  then have "currentIndex (advanceFocus ?t) = (currentIndex ?t + 1) mod length (last7Data s)"
    by simp
  with Suc show ?case
    by (simp add: mod_Suc_eq)
qed

text \<open>
  Claim C4. For every buffer of length \<open>L \<ge> 1\<close> and every focus index in \<open>[0, L)\<close>,
  \<open>L\<close> consecutive calls of \<open>advanceFocus\<close> (the buffer untouched in between) bring the
  focus index back to the value it started from, and leave the buffer as it was.
\<close>

theorem advanceFocus_cycle:
  assumes "length (last7Data s) = L" and "1 \<le> L" and "currentIndex s < L"
  shows "currentIndex ((advanceFocus ^^ L) s) = currentIndex s
         \<and> last7Data ((advanceFocus ^^ L) s) = last7Data s"
proof -
  from assms have ne: "last7Data s \<noteq> []" by auto
  from assms have "currentIndex s < length (last7Data s)" by simp
  from advanceFocus_funpow_index [OF ne this, of L] assms
  have "currentIndex ((advanceFocus ^^ L) s) = (currentIndex s + L) mod L"
    by simp
  with assms show ?thesis
    by (simp add: advanceFocus_funpow_buffer)
qed

theorem advanceFocus_cycle_witness:
  "length (last7Data two_readings) = 2 \<and> (1::nat) \<le> 2 \<and> currentIndex two_readings < 2
   \<and> currentIndex ((advanceFocus ^^ 2) two_readings) = 1
   \<and> currentIndex two_readings = 1"
  using advanceFocus_cycle [of two_readings 2]
  by (simp add: two_readings_def)

section \<open>The buffer is never emptied\<close>

text \<open>
  Claim C10. An envelope with \<open>success = true\<close> and an empty \<open>data\<close> array is handled
  as a failure: the buffer stays and \<open>isLive\<close> becomes false. So a buffer that is
  non-empty stays non-empty under every sequence of refresh outcomes, with or without
  advances in between.
\<close>

theorem buffer_never_emptied:
  "fetch7Data s (Responded code (Some \<lparr>success = True, data = Some [], count = n\<rparr>))
     = s\<lparr>isLive := False\<rparr>
   \<and> (last7Data s \<noteq> [] \<longrightarrow> last7Data (foldl fetch7Data s rs) \<noteq> [])
   \<and> (last7Data s \<noteq> [] \<longrightarrow> last7Data (run_ops s xs) \<noteq> [])"
proof -
  have "last7Data s \<noteq> [] \<Longrightarrow> last7Data (foldl fetch7Data s rs) \<noteq> []"
    by (induction rs arbitrary: s) (simp_all add: fetch7Data_nonempty)
  then show ?thesis
    by (simp add: fetch7Data_def run_ops_nonempty)
qed

theorem buffer_never_emptied_witness:
  "ok 200
   \<and> fetch7Data two_readings (envelope []) = two_readings\<lparr>isLive := False\<rparr>
   \<and> last7Data two_readings \<noteq> []
   \<and> last7Data (foldl fetch7Data two_readings [Rejected, envelope [], envelope [reading 300]])
       = [reading 300]
   \<and> last7Data (run_ops two_readings [Refresh (envelope []), Advance])
       = [reading 100, reading 200]"
  using buffer_never_emptied [where s = two_readings and code = 200 and n = 0
      and rs = "[Rejected, envelope [], envelope [reading 300]]"
      and xs = "[Refresh (envelope []), Advance]"]
  by (simp add: two_readings_def envelope_def fetch7Data_def ok_def advanceFocus_def
      render_def currentData_def)

section \<open>Classification of energy usage\<close>

lemma status_hourly:
  "(status (getEnergyStatus u hourly) = ''Very Low'') = (u < 0.1)"
  "(status (getEnergyStatus u hourly) = ''Low'') = (0.1 \<le> u \<and> u < 0.3)"
  "(status (getEnergyStatus u hourly) = ''Normal'') = (0.3 \<le> u \<and> u < 0.8)"
  "(status (getEnergyStatus u hourly) = ''High'') = (0.8 \<le> u \<and> u < 1.5)"
  "(status (getEnergyStatus u hourly) = ''Very High'') = (1.5 \<le> u)"
  by (auto simp: getEnergyStatus_def Let_def)

lemma status_daily:
  "(status (getEnergyStatus u daily) = ''Very Low'') = (u < 3)"
  "(status (getEnergyStatus u daily) = ''Low'') = (3 \<le> u \<and> u < 8)"
  "(status (getEnergyStatus u daily) = ''Normal'') = (8 \<le> u \<and> u < 15)"
  "(status (getEnergyStatus u daily) = ''High'') = (15 \<le> u \<and> u < 25)"
  "(status (getEnergyStatus u daily) = ''Very High'') = (25 \<le> u)"
  by (auto simp: getEnergyStatus_def Let_def)

lemma status_monthly:
  "(status (getEnergyStatus u monthly) = ''Very Low'') = (u < 90)"
  "(status (getEnergyStatus u monthly) = ''Low'') = (90 \<le> u \<and> u < 240)"
  "(status (getEnergyStatus u monthly) = ''Normal'') = (240 \<le> u \<and> u < 450)"
  "(status (getEnergyStatus u monthly) = ''High'') = (450 \<le> u \<and> u < 750)"
  "(status (getEnergyStatus u monthly) = ''Very High'') = (750 \<le> u)"
  by (auto simp: getEnergyStatus_def Let_def)

text \<open>
  Claim C5. For each period the status is decided by the half-open intervals of the
  table (kWh): hourly 0.1, 0.3, 0.8, 1.5; daily 3, 8, 15, 25; monthly 90, 240, 450, 750.
  Below the first bound it is Very Low, from each bound (inclusive) up to the next
  (exclusive) it is Low, Normal, High, and from the last bound on it is Very High. So
  a daily usage of 7.9 is Low and one of 8.0 is Normal.
\<close>

theorem getEnergyStatus_buckets:
  "((status (getEnergyStatus u hourly) = ''Very Low'') = (u < 0.1)
    \<and> (status (getEnergyStatus u hourly) = ''Low'') = (0.1 \<le> u \<and> u < 0.3)
    \<and> (status (getEnergyStatus u hourly) = ''Normal'') = (0.3 \<le> u \<and> u < 0.8)
    \<and> (status (getEnergyStatus u hourly) = ''High'') = (0.8 \<le> u \<and> u < 1.5)
    \<and> (status (getEnergyStatus u hourly) = ''Very High'') = (1.5 \<le> u))
   \<and> ((status (getEnergyStatus u daily) = ''Very Low'') = (u < 3)
    \<and> (status (getEnergyStatus u daily) = ''Low'') = (3 \<le> u \<and> u < 8)
    \<and> (status (getEnergyStatus u daily) = ''Normal'') = (8 \<le> u \<and> u < 15)
    \<and> (status (getEnergyStatus u daily) = ''High'') = (15 \<le> u \<and> u < 25)
    \<and> (status (getEnergyStatus u daily) = ''Very High'') = (25 \<le> u))
   \<and> ((status (getEnergyStatus u monthly) = ''Very Low'') = (u < 90)
    \<and> (status (getEnergyStatus u monthly) = ''Low'') = (90 \<le> u \<and> u < 240)
    \<and> (status (getEnergyStatus u monthly) = ''Normal'') = (240 \<le> u \<and> u < 450)
    \<and> (status (getEnergyStatus u monthly) = ''High'') = (450 \<le> u \<and> u < 750)
    \<and> (status (getEnergyStatus u monthly) = ''Very High'') = (750 \<le> u))
   \<and> status (getEnergyStatus 7.9 daily) = ''Low''
   \<and> status (getEnergyStatus 8.0 daily) = ''Normal''"
proof -
  have "status (getEnergyStatus 7.9 daily) = ''Low''"
    by (simp add: getEnergyStatus_def)
  moreover have "status (getEnergyStatus 8.0 daily) = ''Normal''"
    by (simp add: getEnergyStatus_def)
  ultimately show ?thesis
    by (simp only: status_hourly status_daily status_monthly simp_thms)
qed

lemma tier_of_status:
  "tier (status (getEnergyStatus u p)) =
     Some (if u < veryLow (ENERGY_THRESHOLDS p) then 0
           else if u < low (ENERGY_THRESHOLDS p) then 1
           else if u < normal (ENERGY_THRESHOLDS p) then 2
           else if u < high (ENERGY_THRESHOLDS p) then 3 else 4)"
  by (simp add: getEnergyStatus_def tier_def Let_def)

text \<open>
  Claim C6. For a fixed period and \<open>u1 < u2\<close>, both statuses are among the five tiers,
  and the tier of \<open>u1\<close> is not above the tier of \<open>u2\<close> in the order
  Very Low < Low < Normal < High < Very High.
\<close>

theorem getEnergyStatus_monotone:
  assumes "u1 < u2"
  shows "\<exists>t1 t2. tier (status (getEnergyStatus u1 p)) = Some t1
           \<and> tier (status (getEnergyStatus u2 p)) = Some t2 \<and> t1 \<le> t2"
  using assms by (cases p) (auto simp: tier_of_status)

theorem getEnergyStatus_monotone_witness:
  "(7.9::real) < 8.0
   \<and> tier (status (getEnergyStatus 7.9 daily)) = Some 1
   \<and> tier (status (getEnergyStatus 8.0 daily)) = Some 2"
  using getEnergyStatus_monotone [of "7.9" "8.0" daily]
  by (simp add: tier_of_status)

section \<open>Cost of energy\<close>

text \<open>
  Claim C7. The cost in rupiah is the energy times the tariff 1444.70 (the R1 2200 VA
  rate of the table), the cost in dollars is the rupiah cost divided by 15500, and no
  rounding step is applied to either; the copy on the reports page computes the same
  function.
\<close>

theorem calculateCost_formula:
  "idr (calculateCost kWh) = kWh * 1444.70
   \<and> usd (calculateCost kWh) = idr (calculateCost kWh) / 15500
   \<and> usd (calculateCost kWh) = kWh * 1444.70 / 15500
   \<and> R1_2200VA ELECTRICITY_RATES = 1444.70
   \<and> reports_calculateCost kWh = calculateCost kWh"
  by (simp add: calculateCost_def reports_calculateCost_def ELECTRICITY_RATES_def
      reports_ELECTRICITY_RATES_def USD_TO_IDR_def)

section \<open>Doubling the energy in binary64 arithmetic\<close>

subsection \<open>The spacing of the doubles\<close>

lemma quantum_small: "t < 2 ^ 53 \<Longrightarrow> quantum t = 1"
  by (simp add: quantum.simps)

lemma quantum_double: "2 ^ 52 \<le> t \<Longrightarrow> quantum (2 * t) = 2 * quantum t"
  by (subst quantum.simps) simp

lemma quantum_pos: "0 < quantum t"
  by (induction t rule: quantum.induct) (subst quantum.simps, simp)

lemma quantum_binade: "2 ^ 52 * 2 ^ j \<le> t \<Longrightarrow> t < 2 ^ 53 * 2 ^ j \<Longrightarrow> quantum t = 2 ^ j"
proof (induction j arbitrary: t)
  case 0
  then show ?case by (simp add: quantum_small)
next
  case (Suc j)
  from Suc.prems have "2 ^ 52 * 2 ^ j \<le> t / 2" "t / 2 < 2 ^ 53 * 2 ^ j" by simp_all
  then have "quantum (t / 2) = 2 ^ j" by (rule Suc.IH)
  moreover have "(2::real) ^ 52 * 1 \<le> 2 ^ 52 * 2 ^ j"
    by (rule mult_left_mono) simp_all
  from this \<open>2 ^ 52 * 2 ^ j \<le> t / 2\<close> have "2 ^ 52 * 1 \<le> t / 2" by (rule order_trans)
  then have "2 ^ 52 \<le> t / 2" by simp
  ultimately show ?case using quantum_double [of "t / 2"] by simp
qed

lemma quantum_binade_ex:
  "2 ^ 52 \<le> t \<Longrightarrow> \<exists>j. 2 ^ 52 * 2 ^ j \<le> t \<and> t < 2 ^ 53 * 2 ^ j" for t :: real
proof (induction t rule: quantum.induct)
  case (1 t)
  show ?case
  proof (cases "t < 2 ^ 53")
    case True
    with "1.prems" show ?thesis by (intro exI [of _ 0]) simp
  next
    case False
    then have "2 ^ 52 \<le> t / 2" by simp
    with "1.IH" False obtain j where "2 ^ 52 * 2 ^ j \<le> t / 2" "t / 2 < 2 ^ 53 * 2 ^ j"
      by blast
    then show ?thesis by (intro exI [of _ "Suc j"]) simp
  qed
qed


lemma round_even_of_int: "round_even (of_int n) = n"
  by (simp add: round_even_def)

lemma round_even_cases: "round_even x = \<lfloor>x\<rfloor> \<or> round_even x = \<lfloor>x\<rfloor> + 1"
  by (simp add: round_even_def Let_def)

lemma round_even_ge:
  assumes "of_int a \<le> x"
  shows "a \<le> round_even x"
proof -
  from assms have "a \<le> \<lfloor>x\<rfloor>" by (simp add: le_floor_iff)
  with round_even_cases [of x] show ?thesis by auto
qed

lemma round_even_le:
  assumes "x \<le> of_int b"
  shows "round_even x \<le> b"
proof (cases "\<lfloor>x\<rfloor> = b")
  case True
  with assms have "x = of_int b"
    using of_int_floor_le [of x] by simp
  then show ?thesis by (simp add: round_even_of_int)
next
  case False
  from assms have "\<lfloor>x\<rfloor> \<le> b" by (simp add: floor_le_iff)
  with False have "\<lfloor>x\<rfloor> + 1 \<le> b" by simp
  with round_even_cases [of x] show ?thesis by auto
qed

text \<open>In the binade \<open>j\<close> the unit is \<open>2 ^ j\<close> and the rounded mantissa has 53 bits.\<close>

lemma units_round_binade:
  assumes "2 ^ 52 * 2 ^ j \<le> t" and "t < 2 ^ 53 * 2 ^ j"
  shows "units_round t = of_int (round_even (t / 2 ^ j)) * 2 ^ j"
    and "2 ^ 52 \<le> round_even (t / 2 ^ j)"
    and "round_even (t / 2 ^ j) \<le> 2 ^ 53"
proof -
  from assms show "units_round t = of_int (round_even (t / 2 ^ j)) * 2 ^ j"
    by (simp add: units_round_def quantum_binade)
  from assms have "of_int (2 ^ 52) \<le> t / 2 ^ j"
    by (simp add: pos_le_divide_eq)
  then show "2 ^ 52 \<le> round_even (t / 2 ^ j)" by (rule round_even_ge)
  from assms have "t / 2 ^ j \<le> of_int (2 ^ 53)"
    by (simp add: pos_divide_le_eq)
  then show "round_even (t / 2 ^ j) \<le> 2 ^ 53" by (rule round_even_le)
qed

lemma of_int_mult_pow_mono:
  "a \<le> b \<Longrightarrow> (of_int a :: real) * 2 ^ j \<le> of_int b * 2 ^ j"
  "a < b \<Longrightarrow> (of_int a :: real) * 2 ^ j < of_int b * 2 ^ j"
  by simp_all

lemma units_round_fixed_binade:
  assumes "2 ^ 52 \<le> n" and "n \<le> 2 ^ 53"
  shows "units_round (of_int n * 2 ^ j) = of_int n * 2 ^ j"
proof (cases "n = 2 ^ 53")
  case True
  have "units_round (of_int (2 ^ 52) * 2 ^ Suc j)
          = of_int (round_even (of_int (2 ^ 52) * 2 ^ Suc j / 2 ^ Suc j)) * 2 ^ Suc j"
    by (rule units_round_binade) simp_all
  also have "(of_int (2 ^ 52) :: real) * 2 ^ Suc j / 2 ^ Suc j = of_int (2 ^ 52)" by simp
  finally have "units_round (of_int (2 ^ 52) * 2 ^ Suc j) = of_int (2 ^ 52) * 2 ^ Suc j"
    by (simp only: round_even_of_int)
  moreover have "(of_int (2 ^ 52) :: real) * 2 ^ Suc j = of_int n * 2 ^ j"
    using True by simp
  ultimately show ?thesis by simp
next
  case False
  with assms have n: "n < 2 ^ 53" by simp
  have lo: "2 ^ 52 * 2 ^ j \<le> (of_int n :: real) * 2 ^ j"
    using of_int_mult_pow_mono(1) [OF assms(1), of j] by simp
  have hi: "(of_int n :: real) * 2 ^ j < 2 ^ 53 * 2 ^ j"
    using of_int_mult_pow_mono(2) [OF n, of j] by simp
  have "units_round (of_int n * 2 ^ j) = of_int (round_even (of_int n * 2 ^ j / 2 ^ j)) * 2 ^ j"
    using lo hi by (rule units_round_binade)
  then show ?thesis by (simp add: round_even_of_int)
qed

lemma units_round_idem:
  assumes "2 ^ 52 \<le> t"
  shows "units_round (units_round t) = units_round t" and "2 ^ 52 \<le> units_round t"
proof -
  from quantum_binade_ex [OF assms]
  obtain j where j: "2 ^ 52 * 2 ^ j \<le> t" "t < 2 ^ 53 * 2 ^ j" by blast
  let ?n = "round_even (t / 2 ^ j)"
  note u = units_round_binade [OF j]
  from u show "units_round (units_round t) = units_round t"
    by (simp add: units_round_fixed_binade)
  from u(2) have "(of_int (2 ^ 52) :: real) \<le> of_int ?n" by (simp only: of_int_le_iff)
  then have n: "(2::real) ^ 52 \<le> of_int ?n" by simp
  have "(2::real) ^ 52 * 1 \<le> of_int ?n * 2 ^ j"
    by (rule mult_mono [OF n]) (use u(2) in simp_all)
  then show "2 ^ 52 \<le> units_round t" using u(1) by simp
qed

subsection \<open>Rounding, doubling and overflow\<close>

lemma MIN_VALUE_pos: "0 < MIN_VALUE"
  by (simp add: MIN_VALUE_def)

lemma units_round_zero: "units_round 0 = 0"
  by (simp add: units_round_def quantum_small round_even_def)

lemma units_round_double: "2 ^ 52 \<le> t \<Longrightarrow> units_round (2 * t) = 2 * units_round t"
  by (simp add: units_round_def quantum_double)

lemma units_round_small: "t < 2 ^ 53 \<Longrightarrow> units_round t = of_int (round_even t)"
  by (simp add: units_round_def quantum_small)

lemma units_round_fixed_double:
  assumes "0 \<le> a" and "units_round a = a"
  shows "units_round (2 * a) = 2 * a"
proof (cases "2 ^ 52 \<le> a")
  case True
  with assms show ?thesis by (simp add: units_round_double)
next
  case False
  then have small: "a < 2 ^ 53" "2 * a < 2 ^ 53" by simp_all
  with assms have "a = of_int (round_even a)" by (simp add: units_round_small)
  then obtain n :: int where "a = of_int n" ..
  then have "2 * a = of_int (2 * n)" by simp
  then have "round_even (2 * a) = 2 * n" by (simp only: round_even_of_int)
  with small \<open>a = of_int n\<close> show ?thesis by (simp add: units_round_small)
qed

lemma units_round_ge_pow:
  assumes "2 ^ 52 \<le> t" and "2 ^ E \<le> t"
  shows "2 ^ E \<le> units_round t"
proof -
  from quantum_binade_ex [OF assms(1)]
  obtain j where j: "2 ^ 52 * 2 ^ j \<le> t" "t < 2 ^ 53 * 2 ^ j" by blast
  let ?n = "round_even (t / 2 ^ j)"
  note u = units_round_binade [OF j]
  show ?thesis
  proof (cases "j \<le> E")
    case True
    then have split: "(2::real) ^ E = 2 ^ (E - j) * 2 ^ j"
      by (simp add: power_add [symmetric])
    with assms(2) have "of_int (2 ^ (E - j)) \<le> t / 2 ^ j"
      by (simp add: pos_le_divide_eq)
    then have "2 ^ (E - j) \<le> ?n" by (rule round_even_ge)
    then have "(of_int (2 ^ (E - j)) :: real) * 2 ^ j \<le> of_int ?n * 2 ^ j"
      by (rule of_int_mult_pow_mono(1))
    with split u(1) show ?thesis by simp
  next
    case False
    then have a: "(2::real) ^ E \<le> 2 ^ j" by (simp add: power_increasing)
    from u(2) have "(1::int) \<le> ?n" by simp
    then have "(of_int 1 :: real) * 2 ^ j \<le> of_int ?n * 2 ^ j"
      by (rule of_int_mult_pow_mono(1))
    then have b: "(2::real) ^ j \<le> of_int ?n * 2 ^ j" by simp
    from a b have "(2::real) ^ E \<le> of_int ?n * 2 ^ j" by (rule order_trans)
    with u(1) show ?thesis by simp
  qed
qed

lemma binary64_pos_units:
  "binary64_pos y =
     (if 2 ^ 2098 \<le> units_round (y / MIN_VALUE) then PosInf
      else Finite (units_round (y / MIN_VALUE) * MIN_VALUE))"
  by (simp add: binary64_pos_def Let_def)

lemma js_neg_js_neg: "js_neg (js_neg x) = x"
  by (cases x) simp_all

lemma binary64_zero: "binary64 0 = Finite 0"
  by (simp add: binary64_def binary64_pos_units units_round_zero)

lemma binary64_minus: "binary64 (- y) = js_neg (binary64 y)"
proof -
  consider "y < 0" | "y = 0" | "0 < y" by linarith
  then show ?thesis
  proof cases
    case 1
    then show ?thesis by (simp add: binary64_def js_neg_js_neg)
  next
    case 2
    then show ?thesis by (simp add: binary64_zero)
  next
    case 3
    then show ?thesis by (simp add: binary64_def)
  qed
qed

lemma js_mul_neg_left: "js_mul (js_neg x) y = js_neg (js_mul x y)"
  by (cases x; cases y) (auto simp: binary64_minus)

lemma js_mul_neg_right: "js_mul x (js_neg y) = js_neg (js_mul x y)"
  by (cases x; cases y) (auto simp: binary64_minus)

subsection \<open>Evaluating a rounding\<close>

lemma binary64_binade:
  assumes "0 \<le> y" and "2 ^ 52 * 2 ^ j \<le> y / MIN_VALUE" and "y / MIN_VALUE < 2 ^ 53 * 2 ^ j"
    and "round_even (y / MIN_VALUE / 2 ^ j) = n" and "of_int n * 2 ^ j < (2::real) ^ 2098"
  shows "binary64 y = Finite (of_int n * 2 ^ j * MIN_VALUE)"
proof -
  from assms(2,3,4) have "units_round (y / MIN_VALUE) = of_int n * 2 ^ j"
    by (simp add: units_round_binade(1))
  with assms(1,5) show ?thesis
    by (simp add: binary64_def binary64_pos_units)
qed

lemma binary64_subnormal:
  assumes "0 \<le> y" and "y / MIN_VALUE < 2 ^ 53" and "round_even (y / MIN_VALUE) = n"
    and "of_int n < (2::real) ^ 2098"
  shows "binary64 y = Finite (of_int n * MIN_VALUE)"
proof -
  from assms(2,3) have "units_round (y / MIN_VALUE) = of_int n"
    by (simp add: units_round_small)
  with assms(1,4) show ?thesis
    by (simp add: binary64_def binary64_pos_units)
qed

lemma round_even_rate: "round_even (1444.70 / MIN_VALUE / 2 ^ 1032) = 6353857794591949"
  by (simp add: MIN_VALUE_def round_even_def)

text \<open>The literal \<^verbatim>\<open>1444.70\<close> is the double \<open>R1_2200VA_double\<close>.\<close>

lemma rate_literal: "binary64 1444.70 = Finite R1_2200VA_double"
proof -
  have "binary64 1444.70 = Finite (of_int 6353857794591949 * 2 ^ 1032 * MIN_VALUE)"
    by (rule binary64_binade [OF _ _ _ round_even_rate]) (simp_all add: MIN_VALUE_def)
  also have "of_int 6353857794591949 * 2 ^ 1032 * MIN_VALUE = R1_2200VA_double"
    by (simp add: MIN_VALUE_def R1_2200VA_double_def)
  finally show ?thesis .
qed

lemma rate_double: "binary64 (R1_2200VA ELECTRICITY_RATES) = Finite R1_2200VA_double"
proof -
  have "R1_2200VA ELECTRICITY_RATES = 1444.70"
    by (simp add: ELECTRICITY_RATES_def)
  then show ?thesis by (simp only: rate_literal)
qed


subsection \<open>Doubling commutes with the rounded product outside the subnormal range\<close>

lemma binary64_nonneg_units:
  assumes "0 \<le> y" and "units_round (y / MIN_VALUE) = v"
  shows "binary64 y = (if 2 ^ 2098 \<le> v then PosInf else Finite (v * MIN_VALUE))"
  using assms by (simp add: binary64_def binary64_pos_units)

lemma is_double_units:
  assumes "0 \<le> k" and "is_double k"
  shows "units_round (k / MIN_VALUE) = k / MIN_VALUE" and "k / MIN_VALUE < 2 ^ 2098"
proof -
  let ?v = "units_round (k / MIN_VALUE)"
  from assms have eq: "(if 2 ^ 2098 \<le> ?v then PosInf else Finite (?v * MIN_VALUE)) = Finite k"
    by (simp add: is_double_def binary64_nonneg_units)
  then have fin: "\<not> 2 ^ 2098 \<le> ?v" by (auto split: if_splits)
  with eq have "?v * MIN_VALUE = k" by simp
  with MIN_VALUE_pos show v: "?v = k / MIN_VALUE" by (simp add: field_simps)
  from fin v show "k / MIN_VALUE < 2 ^ 2098" by simp
qed

lemma doubling_nonneg:
  assumes k: "0 \<le> k" "is_double k" and R: "2 \<le> R"
    and normal: "k = 0 \<or> MIN_NORMAL \<le> k * R"
  shows "js_mul (js_mul (Finite 2) (Finite k)) (Finite R)
           = js_mul (Finite 2) (js_mul (Finite k) (Finite R))"
proof (cases "k = 0")
  case True
  then show ?thesis by (simp add: binary64_zero)
next
  case False
  define a where "a = k / MIN_VALUE"
  define t where "t = k * R / MIN_VALUE"
  define v where "v = units_round t"
  from k False have kpos: "0 < k" by simp
  from kpos MIN_VALUE_pos have a0: "0 \<le> a" by (simp add: a_def)
  have ta: "t = a * R" by (simp add: t_def a_def)
  from is_double_units [OF k] have afix: "units_round a = a" by (simp_all add: a_def)
  from a0 afix have a2: "units_round (2 * a) = 2 * a" by (rule units_round_fixed_double)
  from normal False MIN_VALUE_pos have t52: "2 ^ 52 \<le> t"
    by (simp add: t_def MIN_NORMAL_def pos_le_divide_eq)
  from units_round_idem [OF t52] have vfix: "units_round v = v" and v52: "2 ^ 52 \<le> v"
    by (simp_all add: v_def)
  from t52 have t2: "units_round (2 * t) = 2 * v"
    by (simp add: v_def units_round_double)
  from v52 vfix have v2: "units_round (2 * v) = 2 * v"
    by (simp add: units_round_double)
  let ?res = "if 2 ^ 2098 \<le> 2 * v then PosInf else Finite (2 * v * MIN_VALUE)"
  have inner: "js_mul (Finite k) (Finite R)
                 = (if 2 ^ 2098 \<le> v then PosInf else Finite (v * MIN_VALUE))"
    using k R by (simp add: binary64_nonneg_units [where v = v] v_def t_def)
  have rhs: "js_mul (Finite 2) (js_mul (Finite k) (Finite R)) = ?res"
  proof (cases "2 ^ 2098 \<le> v")
    case True
    with inner show ?thesis by simp
  next
    case False
    have "0 \<le> 2 * (v * MIN_VALUE)"
      using v52 MIN_VALUE_pos by simp
    moreover have "units_round (2 * (v * MIN_VALUE) / MIN_VALUE) = 2 * v"
      using v2 MIN_VALUE_pos by simp
    ultimately have "binary64 (2 * (v * MIN_VALUE)) = ?res"
      by (rule binary64_nonneg_units)
    with inner False show ?thesis by simp
  qed
  have twice: "js_mul (Finite 2) (Finite k)
                 = (if 2 ^ 2098 \<le> 2 * a then PosInf else Finite (2 * k))"
  proof -
    have "0 \<le> 2 * k" using k by simp
    moreover have "units_round (2 * k / MIN_VALUE) = 2 * a"
      using a2 by (simp add: a_def)
    ultimately have "binary64 (2 * k)
        = (if 2 ^ 2098 \<le> 2 * a then PosInf else Finite (2 * a * MIN_VALUE))"
      by (rule binary64_nonneg_units)
    moreover have "2 * a * MIN_VALUE = 2 * k"
      using MIN_VALUE_pos by (simp add: a_def)
    ultimately show ?thesis by simp
  qed
  have lhs: "js_mul (js_mul (Finite 2) (Finite k)) (Finite R) = ?res"
  proof (cases "2 ^ 2098 \<le> 2 * a")
    case True
    from mult_left_mono [OF R a0] have "2 * a \<le> a * R"
      by (simp add: mult.commute)
    with True have "2 ^ 2098 \<le> a * R" by (rule order_trans)
    then have "2 ^ 2098 \<le> t" by (simp only: ta)
    with t52 have "2 ^ 2098 \<le> v" unfolding v_def by (rule units_round_ge_pow)
    with v52 have "2 ^ 2098 \<le> 2 * v" by simp
    with True twice R show ?thesis by simp
  next
    case False
    have "0 \<le> 2 * k * R" using k R by simp
    moreover have "2 * k * R / MIN_VALUE = 2 * t"
      by (simp add: t_def)
    then have "units_round (2 * k * R / MIN_VALUE) = 2 * v"
      using t2 by (simp only:)
    ultimately have "binary64 (2 * k * R) = ?res"
      by (rule binary64_nonneg_units)
    with False twice show ?thesis by simp
  qed
  from lhs rhs show ?thesis by simp
qed

lemma is_double_minus: "is_double k \<Longrightarrow> is_double (- k)"
  by (simp add: is_double_def binary64_minus)

lemma doubling:
  assumes k: "is_double k" and R: "2 \<le> R"
    and normal: "k = 0 \<or> MIN_NORMAL \<le> \<bar>k\<bar> * R"
  shows "js_mul (js_mul (Finite 2) (Finite k)) (Finite R)
           = js_mul (Finite 2) (js_mul (Finite k) (Finite R))"
proof (cases "0 \<le> k")
  case True
  with normal have "k = 0 \<or> MIN_NORMAL \<le> k * R" by simp
  with True k R show ?thesis by (rule doubling_nonneg)
next
  case False
  then have "0 \<le> - k" by simp
  moreover from k have "is_double (- k)" by (rule is_double_minus)
  moreover from normal False have "- k = 0 \<or> MIN_NORMAL \<le> - k * R" by simp
  ultimately have pos: "js_mul (js_mul (Finite 2) (Finite (- k))) (Finite R)
           = js_mul (Finite 2) (js_mul (Finite (- k)) (Finite R))"
    using R by (intro doubling_nonneg)
  have neg: "Finite (- k) = js_neg (Finite k)" by simp
  from pos have "js_neg (js_mul (js_mul (Finite 2) (Finite k)) (Finite R))
      = js_neg (js_mul (Finite 2) (js_mul (Finite k) (Finite R)))"
    unfolding neg js_mul_neg_left js_mul_neg_right .
  then have "js_neg (js_neg (js_mul (js_mul (Finite 2) (Finite k)) (Finite R)))
      = js_neg (js_neg (js_mul (Finite 2) (js_mul (Finite k) (Finite R))))"
    by (rule arg_cong)
  then show ?thesis by (simp only: js_neg_js_neg)
qed

subsection \<open>The cost helper\<close>

lemma R1_2200VA_double_ge: "2 \<le> R1_2200VA_double"
  by (simp add: R1_2200VA_double_def)

lemma idr_js_calculateCost: "idr_js (calculateCost_js x) = js_mul x (Finite R1_2200VA_double)"
  unfolding calculateCost_js_def Let_def rate_double by simp

lemma calculateCost_js_zero: "calculateCost_js (Finite 0) = \<lparr>idr_js = Finite 0, usd_js = Finite 0\<rparr>"
  unfolding calculateCost_js_def Let_def rate_double by (simp add: binary64_zero)

lemma binary64_10: "binary64 10 = Finite 10"
proof -
  have r: "round_even (10 / MIN_VALUE / 2 ^ 1025) = 5629499534213120"
    by (simp add: MIN_VALUE_def round_even_def)
  have "binary64 10 = Finite (of_int 5629499534213120 * 2 ^ 1025 * MIN_VALUE)"
    by (rule binary64_binade [OF _ _ _ r]) (simp_all add: MIN_VALUE_def)
  then show ?thesis by (simp add: MIN_VALUE_def)
qed

lemma idr_js_10: "idr_js (calculateCost_js (Finite 10)) = Finite 14447"
proof -
  have r: "round_even (10 * R1_2200VA_double / MIN_VALUE / 2 ^ 1035) = 7942322243239936"
    by (simp add: MIN_VALUE_def R1_2200VA_double_def round_even_def)
  have "binary64 (10 * R1_2200VA_double)
          = Finite (of_int 7942322243239936 * 2 ^ 1035 * MIN_VALUE)"
    by (rule binary64_binade [OF _ _ _ r]) (simp_all add: MIN_VALUE_def R1_2200VA_double_def)
  then show ?thesis by (simp add: idr_js_calculateCost MIN_VALUE_def)
qed

lemma binary64_units:
  assumes "0 \<le> t" and "t < 2 ^ 53" and "round_even t = n"
  shows "binary64 (t * MIN_VALUE) = Finite (of_int n * MIN_VALUE)"
proof -
  have n53: "n \<le> 2 ^ 53"
    using assms(2,3) round_even_le [of t "2 ^ 53"] by simp
  then have "(of_int n :: real) \<le> of_int (2 ^ 53)" by (simp only: of_int_le_iff)
  then have "(of_int n :: real) < 2 ^ 2098" by simp
  moreover have "0 \<le> t * MIN_VALUE" using assms(1) MIN_VALUE_pos by simp
  moreover have "t * MIN_VALUE / MIN_VALUE = t" using MIN_VALUE_pos by simp
  ultimately show ?thesis using assms(2,3)
    by (intro binary64_subnormal) simp_all
qed

text \<open>
  Claim C8, as the code has it. \<open>calculateCost(0)\<close> is zero in both currencies. For
  every finite double \<open>k\<close> that is zero, or whose exact product with the tariff has a
  magnitude of at least \<^verbatim>\<open>2^-1022\<close> (the rupiah cost is not in the subnormal range),
  \<open>calculateCost(2 * k).idr\<close> equals \<open>2 * calculateCost(k).idr\<close>, both sides computed in
  binary64; when they overflow, both are the same infinity.
\<close>

theorem calculateCost_js_doubling:
  assumes "is_double k" and "k = 0 \<or> MIN_NORMAL \<le> \<bar>k\<bar> * R1_2200VA_double"
  shows "calculateCost_js (Finite 0) = \<lparr>idr_js = Finite 0, usd_js = Finite 0\<rparr>
         \<and> idr_js (calculateCost_js (js_mul (Finite 2) (Finite k)))
             = js_mul (Finite 2) (idr_js (calculateCost_js (Finite k)))"
proof -
  from assms(1) R1_2200VA_double_ge assms(2)
  have "js_mul (js_mul (Finite 2) (Finite k)) (Finite R1_2200VA_double)
          = js_mul (Finite 2) (js_mul (Finite k) (Finite R1_2200VA_double))"
    by (rule doubling)
  then show ?thesis
    by (simp only: idr_js_calculateCost calculateCost_js_zero simp_thms)
qed

theorem calculateCost_js_doubling_witness:
  "is_double 10
   \<and> MIN_NORMAL \<le> \<bar>10\<bar> * R1_2200VA_double
   \<and> idr_js (calculateCost_js (Finite 10)) = Finite 14447
   \<and> idr_js (calculateCost_js (js_mul (Finite 2) (Finite 10))) = js_mul (Finite 2) (Finite 14447)"
proof -
  have d: "is_double 10" by (simp add: is_double_def binary64_10)
  have n: "MIN_NORMAL \<le> \<bar>10\<bar> * R1_2200VA_double"
    by (simp add: MIN_NORMAL_def MIN_VALUE_def R1_2200VA_double_def)
  then have n': "(10::real) = 0 \<or> MIN_NORMAL \<le> \<bar>10\<bar> * R1_2200VA_double" ..
  from calculateCost_js_doubling [OF d n'] d n idr_js_10 show ?thesis
    by (simp only: simp_thms)
qed

text \<open>
  The claim as it is written, for every \<open>k\<close>, fails in the subnormal range. For
  \<open>k = 5e-324\<close>, the smallest positive double, the product with the tariff is
  1444.7 units and is rounded to 1445 units, which doubled is 2890 units; \<open>2 * k\<close> is
  2 units exactly, and its product with the tariff, 2889.4 units, is rounded to 2889.
\<close>

theorem calculateCost_js_subnormal_counterexample:
  "is_double MIN_VALUE
   \<and> js_mul (Finite 2) (Finite MIN_VALUE) = Finite (2 * MIN_VALUE)
   \<and> idr_js (calculateCost_js (Finite (2 * MIN_VALUE))) = Finite (2889 * MIN_VALUE)
   \<and> idr_js (calculateCost_js (Finite MIN_VALUE)) = Finite (1445 * MIN_VALUE)
   \<and> js_mul (Finite 2) (Finite (1445 * MIN_VALUE)) = Finite (2890 * MIN_VALUE)
   \<and> idr_js (calculateCost_js (js_mul (Finite 2) (Finite MIN_VALUE)))
        \<noteq> js_mul (Finite 2) (idr_js (calculateCost_js (Finite MIN_VALUE)))"
proof -
  have one: "binary64 MIN_VALUE = Finite MIN_VALUE"
    using binary64_units [of 1 1] by (simp add: round_even_def)
  have two: "binary64 (2 * MIN_VALUE) = Finite (2 * MIN_VALUE)"
    using binary64_units [of 2 2] by (simp add: round_even_def)
  have c2: "binary64 (2 * MIN_VALUE * R1_2200VA_double) = Finite (2889 * MIN_VALUE)"
    using binary64_units [of "2 * R1_2200VA_double" 2889]
    by (simp add: round_even_def R1_2200VA_double_def mult.commute mult.left_commute)
  have c1: "binary64 (MIN_VALUE * R1_2200VA_double) = Finite (1445 * MIN_VALUE)"
    using binary64_units [of "R1_2200VA_double" 1445]
    by (simp add: round_even_def R1_2200VA_double_def mult.commute)
  have d: "binary64 (2 * (1445 * MIN_VALUE)) = Finite (2890 * MIN_VALUE)"
    using binary64_units [of 2890 2890] by (simp add: round_even_def)
  have ne: "Finite (2889 * MIN_VALUE) \<noteq> Finite (2890 * MIN_VALUE)"
    using MIN_VALUE_pos by simp
  from one two c1 c2 d ne show ?thesis
    by (simp add: is_double_def idr_js_calculateCost)
qed

text \<open>
  Only the factor 2 is special. Three times the cost of 7 kWh is not the cost of
  21 kWh: the two differ in the last bit (30338.699999999997 and 30338.7).
\<close>

lemma calculateCost_js_tripling_fails:
  "idr_js (calculateCost_js (Finite 7)) = Finite (5559625570267955 / 2 ^ 39)
   \<and> js_mul (Finite 3) (Finite (5559625570267955 / 2 ^ 39)) = Finite (8339438355401932 / 2 ^ 38)
   \<and> idr_js (calculateCost_js (Finite 21)) = Finite (8339438355401933 / 2 ^ 38)"
proof -
  have r7: "round_even (7 * R1_2200VA_double / MIN_VALUE / 2 ^ 1035) = 5559625570267955"
    by (simp add: MIN_VALUE_def R1_2200VA_double_def round_even_def)
  have "binary64 (7 * R1_2200VA_double)
          = Finite (of_int 5559625570267955 * 2 ^ 1035 * MIN_VALUE)"
    by (rule binary64_binade [OF _ _ _ r7]) (simp_all add: MIN_VALUE_def R1_2200VA_double_def)
  then have c7: "idr_js (calculateCost_js (Finite 7)) = Finite (5559625570267955 / 2 ^ 39)"
    by (simp add: idr_js_calculateCost MIN_VALUE_def)
  have r3: "round_even (3 * (5559625570267955 / 2 ^ 39) / MIN_VALUE / 2 ^ 1036)
              = 8339438355401932"
    by (simp add: MIN_VALUE_def round_even_def)
  have "binary64 (3 * (5559625570267955 / 2 ^ 39))
          = Finite (of_int 8339438355401932 * 2 ^ 1036 * MIN_VALUE)"
    by (rule binary64_binade [OF _ _ _ r3]) (simp_all add: MIN_VALUE_def)
  then have c3: "js_mul (Finite 3) (Finite (5559625570267955 / 2 ^ 39))
                   = Finite (8339438355401932 / 2 ^ 38)"
    by (simp add: MIN_VALUE_def)
  have r21: "round_even (21 * R1_2200VA_double / MIN_VALUE / 2 ^ 1036) = 8339438355401933"
    by (simp add: MIN_VALUE_def R1_2200VA_double_def round_even_def)
  have "binary64 (21 * R1_2200VA_double)
          = Finite (of_int 8339438355401933 * 2 ^ 1036 * MIN_VALUE)"
    by (rule binary64_binade [OF _ _ _ r21]) (simp_all add: MIN_VALUE_def R1_2200VA_double_def)
  then have c21: "idr_js (calculateCost_js (Finite 21)) = Finite (8339438355401933 / 2 ^ 38)"
    by (simp add: idr_js_calculateCost MIN_VALUE_def)
  from c7 c3 c21 show ?thesis by simp
qed

section \<open>Fallback to the sample set on the analysis page\<close>

lemma map_items_None: "list_ex (\<lambda>x. x = None) xs \<Longrightarrow> map_items f xs = None"
  by (induction f xs rule: map_items.induct) auto

lemma fetchPeakUsageData_failed:
  "array_fetch_failed r \<Longrightarrow> fetchPeakUsageData s r = s\<lparr>peakUsageData := DUMMY_PEAK_DATA\<rparr>"
  by (auto simp: array_fetch_failed_def fetchPeakUsageData_def map_items_None
      split: fetch_result.splits array_body.splits)

lemma fetchLoadPatternData_failed:
  "array_fetch_failed r \<Longrightarrow> fetchLoadPatternData s r = s\<lparr>loadPatternData := DUMMY_LOAD_PATTERN\<rparr>"
  by (auto simp: array_fetch_failed_def fetchLoadPatternData_def map_items_None
      split: fetch_result.splits array_body.splits)

text \<open>Each fetcher leaves the cells of the others, and the error cell, alone.\<close>

lemma fetchPeakUsageData_frame:
  "error (fetchPeakUsageData s r) = error s"
  "loadPatternData (fetchPeakUsageData s r) = loadPatternData s"
  by (simp_all add: fetchPeakUsageData_def
      split: fetch_result.splits array_body.splits option.splits)

lemma fetchLoadPatternData_frame:
  "error (fetchLoadPatternData s r) = error s"
  "peakUsageData (fetchLoadPatternData s r) = peakUsageData s"
  by (simp_all add: fetchLoadPatternData_def
      split: fetch_result.splits array_body.splits option.splits)

lemma fetchPowerFactor_frame:
  "error (fetchPowerFactor s r) = error s"
  "peakUsageData (fetchPowerFactor s r) = peakUsageData s"
  "loadPatternData (fetchPowerFactor s r) = loadPatternData s"
  by (simp_all add: fetchPowerFactor_def split: option.splits)

lemma fetchStatistics_frame:
  "error (fetchStatistics s r) = error s"
  "peakUsageData (fetchStatistics s r) = peakUsageData s"
  "loadPatternData (fetchStatistics s r) = loadPatternData s"
  by (simp_all add: fetchStatistics_def split: option.splits)

lemmas analysis_frame =
  fetchPeakUsageData_frame fetchLoadPatternData_frame fetchPowerFactor_frame
  fetchStatistics_frame

text \<open>
  Claim C9. When the peak-usage fetch fails (a thrown error, a status that is not 2xx,
  a body that is not an array, an empty array), the peak-usage data shown are
  \<open>DUMMY_PEAK_DATA\<close>, after the fetcher itself and after the whole of \<open>fetchAllData\<close>;
  likewise the load pattern and \<open>DUMMY_LOAD_PATTERN\<close>. Neither fetcher touches the
  error cell, and after \<open>fetchAllData\<close> the error cell is null, whatever the four
  fetches delivered.
\<close>

theorem analysis_fallback:
  "(array_fetch_failed rpeak \<longrightarrow>
      fetchPeakUsageData s rpeak = s\<lparr>peakUsageData := DUMMY_PEAK_DATA\<rparr>
      \<and> peakUsageData (fetchAllData s rpeak rload rpf rstats) = DUMMY_PEAK_DATA)
   \<and> (array_fetch_failed rload \<longrightarrow>
      fetchLoadPatternData s rload = s\<lparr>loadPatternData := DUMMY_LOAD_PATTERN\<rparr>
      \<and> loadPatternData (fetchAllData s rpeak rload rpf rstats) = DUMMY_LOAD_PATTERN)
   \<and> error (fetchPeakUsageData s rpeak) = error s
   \<and> error (fetchLoadPatternData s rload) = error s
   \<and> error (fetchAllData s rpeak rload rpf rstats) = None"
proof -
  have err: "error (fetchAllData s rpeak rload rpf rstats) = None"
    by (simp add: fetchAllData_def Let_def analysis_frame)
  have peak: "peakUsageData (fetchAllData s rpeak rload rpf rstats)
                = peakUsageData (fetchPeakUsageData (s\<lparr>loading := True, error := None\<rparr>) rpeak)"
    by (simp add: fetchAllData_def Let_def analysis_frame)
  have load: "loadPatternData (fetchAllData s rpeak rload rpf rstats)
                = loadPatternData (fetchLoadPatternData
                    (fetchPeakUsageData (s\<lparr>loading := True, error := None\<rparr>) rpeak) rload)"
    by (simp add: fetchAllData_def Let_def analysis_frame)
  show ?thesis
    by (simp add: err peak load analysis_frame fetchPeakUsageData_failed
        fetchLoadPatternData_failed)
qed

theorem analysis_fallback_witness:
  "array_fetch_failed (Responded 500 (Items [Some one_peak_item]))
   \<and> array_fetch_failed (Responded 200 (Items [None :: load_item option]))
   \<and> peakUsageData (fetchPeakUsageData (initial_analysis\<lparr>peakUsageData := []\<rparr>)
        (Responded 500 (Items [Some one_peak_item]))) = DUMMY_PEAK_DATA
   \<and> peakUsageData (fetchAllData (initial_analysis\<lparr>peakUsageData := []\<rparr>)
        (Responded 500 (Items [Some one_peak_item])) (Responded 200 (Items [None]))
        None None) = DUMMY_PEAK_DATA
   \<and> loadPatternData (fetchAllData (initial_analysis\<lparr>peakUsageData := []\<rparr>)
        (Responded 500 (Items [Some one_peak_item])) (Responded 200 (Items [None]))
        None None) = DUMMY_LOAD_PATTERN
   \<and> error (fetchAllData (initial_analysis\<lparr>peakUsageData := []\<rparr>)
        (Responded 500 (Items [Some one_peak_item])) (Responded 200 (Items [None]))
        None None) = None"
  using analysis_fallback [where s = "initial_analysis\<lparr>peakUsageData := []\<rparr>"
      and rpeak = "Responded 500 (Items [Some one_peak_item])"
      and rload = "Responded 200 (Items [None])" and rpf = None and rstats = None]
  by (simp add: array_fetch_failed_def ok_def)

end
